theory Spec2Isabelle
  imports Main "HOL-Library.AList"
begin

section \<open>JavaScript values\<close>

text \<open>
  The service of \<^verbatim>\<open>src/annotationService.ts\<close> handles untyped JSON: what
  \<^verbatim>\<open>response.json()\<close> returns is stored in the private fields and handed back to the caller
  as it is. Values are therefore modelled dynamically. A string is the sequence of its
  UTF-8 bytes. A number is kept as the text JavaScript prints for it (\<^verbatim>\<open>Infinity\<close>,
  \<^verbatim>\<open>-Infinity\<close> and \<^verbatim>\<open>NaN\<close> for the values that are not finite), since the service never
  calculates with one. An object is the list of its own enumerable properties in
  enumeration order, each key once: the keys that are array indices first, in
  ascending order, then the others in the order of their creation. An object that
  serialises itself through \<^verbatim>\<open>toJSON\<close>, as a \<^verbatim>\<open>URL\<close> does, is the value it serialises to.
\<close>

datatype jsval =
    Undefined
  | Null
  | Bool bool
  | Num string
  | Str string
  | Arr "jsval list"
  | Obj "(string \<times> jsval) list"

datatype exn = TypeError | SyntaxError | FetchFailure

text \<open>What an \<^verbatim>\<open>async\<close> method's promise settles to.\<close>

datatype 'a promise = Resolved 'a | Rejected exn

text \<open>Truthiness, as \<^verbatim>\<open>&&\<close> and \<^verbatim>\<open>||\<close> test it.\<close>

fun truthy :: "jsval \<Rightarrow> bool" where
  "truthy Undefined = False"
| "truthy Null = False"
| "truthy (Bool b) = b"
| "truthy (Num t) = (t \<noteq> ''0'' \<and> t \<noteq> ''NaN'')"
| "truthy (Str t) = (t \<noteq> [])"
| "truthy (Arr xs) = True"
| "truthy (Obj kvs) = True"

text \<open>
  \<^verbatim>\<open>k in v\<close>, for a key \<open>k\<close> that is neither an array index nor inherited from a prototype
  (the source tests \<^verbatim>\<open>'error'\<close> and \<^verbatim>\<open>'success'\<close> only). On a primitive the operator
  throws a TypeError: the result is \<open>None\<close>.
\<close>

fun in_op :: "string \<Rightarrow> jsval \<Rightarrow> bool option" where
  "in_op k (Obj kvs) = Some (k \<in> set (map fst kvs))"
| "in_op k (Arr xs) = Some False"
| "in_op k v = None"

text \<open>
  \<^verbatim>\<open>v.k\<close>, for a key that is no built-in property. The source reads a property only
  of a value that has passed \<^verbatim>\<open>in\<close> or a truthiness test, so the TypeError of
  \<^verbatim>\<open>null.k\<close> is never reached; a primitive has no such property.
\<close>

fun get_prop :: "string \<Rightarrow> jsval \<Rightarrow> jsval" where
  "get_prop k (Obj kvs) = (case map_of kvs k of Some v \<Rightarrow> v | None \<Rightarrow> Undefined)"
| "get_prop k v = Undefined"

text \<open>An array index is the canonical decimal text of a number from 0 to 4294967294.\<close>

definition index_value :: "string \<Rightarrow> nat" where
  "index_value k = foldl (\<lambda>n c. 10 * n + (of_char c - 48)) 0 k"

definition is_index :: "string \<Rightarrow> bool" where
  "is_index k =
     (k \<noteq> [] \<and> list_all (\<lambda>c. 48 \<le> (of_char c :: nat) \<and> (of_char c :: nat) \<le> 57) k
      \<and> (k = ''0'' \<or> hd k \<noteq> CHR ''0'') \<and> length k \<le> 10 \<and> index_value k \<le> 4294967294)"

text \<open>A new property whose key is an array index takes its place among the indices.\<close>

fun insert_index :: "string \<Rightarrow> jsval \<Rightarrow> (string \<times> jsval) list \<Rightarrow> (string \<times> jsval) list" where
  "insert_index k v [] = [(k, v)]"
| "insert_index k v (p # ps) =
     (if is_index (fst p) \<and> index_value (fst p) < index_value k then p # insert_index k v ps
      else (k, v) # p # ps)"

text \<open>\<^verbatim>\<open>target[k] = v\<close> on a plain object. A key the object has keeps its place; a new key
  goes to the end, or among the indices when it is one. Assigning to \<^verbatim>\<open>__proto__\<close> calls the
  setter of \<^verbatim>\<open>Object.prototype\<close> and makes no property.\<close>

definition set_prop :: "string \<Rightarrow> jsval \<Rightarrow> (string \<times> jsval) list \<Rightarrow> (string \<times> jsval) list" where
  "set_prop k v t =
     (if k = ''__proto__'' then t
      else if k \<in> set (map fst t) then AList.update k v t
      else if is_index k then insert_index k v t
      else t @ [(k, v)])"

text \<open>\<^verbatim>\<open>Object.assign(target, source)\<close>: each property of the source is set on the
  target in turn, so a property of the source replaces the value the target has.\<close>

definition Object_assign :: "(string \<times> jsval) list \<Rightarrow> (string \<times> jsval) list \<Rightarrow> (string \<times> jsval) list" where
  "Object_assign target source = foldl (\<lambda>t (k, v). set_prop k v t) target source"

text \<open>\<^verbatim>\<open>xs.join(sep)\<close> on an array of strings.\<close>

fun join :: "string \<Rightarrow> string list \<Rightarrow> string" where
  "join sep [] = []"
| "join sep [x] = x"
| "join sep (x # y # ys) = x @ sep @ join sep (y # ys)"

text \<open>Decimal digits of a number, as a template literal prints \<^verbatim>\<open>response.status\<close>.\<close>

definition digit :: "nat \<Rightarrow> char" where
  "digit n = ''0123456789abcdef'' ! n"

function decimal :: "nat \<Rightarrow> string" where
  "decimal n = (if n < 10 then [digit n] else decimal (n div 10) @ [digit (n mod 10)])"
  by pat_completeness auto
termination
  by (relation "measure id") auto

declare decimal.simps [simp del]

text \<open>\<^verbatim>\<open>String(v)\<close>, the coercion a cookie value goes through when it is written.\<close>

fun ToString :: "jsval \<Rightarrow> string" where
  "ToString Undefined = ''undefined''"
| "ToString Null = ''null''"
| "ToString (Bool b) = (if b then ''true'' else ''false'')"
| "ToString (Num t) = t"
| "ToString (Str t) = t"
| "ToString (Arr xs) =
     join '','' (map (\<lambda>x. if x = Null \<or> x = Undefined then [] else ToString x) xs)"
| "ToString (Obj kvs) = ''[object Object]''"

subsection \<open>JSON.stringify\<close>

definition hex2 :: "nat \<Rightarrow> string" where
  "hex2 n = [digit (n div 16), digit (n mod 16)]"

definition escape_char :: "char \<Rightarrow> string" where
  "escape_char c =
     (if c = CHR 0x22 then [CHR 0x5C, CHR 0x22]
      else if c = CHR 0x5C then [CHR 0x5C, CHR 0x5C]
      else if c = CHR 0x08 then [CHR 0x5C, CHR ''b'']
      else if c = CHR 0x0C then [CHR 0x5C, CHR ''f'']
      else if c = CHR 0x0A then [CHR 0x5C, CHR ''n'']
      else if c = CHR 0x0D then [CHR 0x5C, CHR ''r'']
      else if c = CHR 0x09 then [CHR 0x5C, CHR ''t'']
      else if (of_char c :: nat) < 32 then [CHR 0x5C, CHR ''u'', CHR ''0'', CHR ''0''] @ hex2 (of_char c)
      else [c])"

definition quote :: "string \<Rightarrow> string" where
  "quote t = [CHR 0x22] @ concat (map escape_char t) @ [CHR 0x22]"

text \<open>\<open>None\<close> is the \<^verbatim>\<open>undefined\<close> that \<^verbatim>\<open>JSON.stringify(undefined)\<close> returns. A property
  whose value is undefined is left out of an object; an undefined array element prints
  as \<^verbatim>\<open>null\<close>, and so does a number that is not finite.\<close>

definition finite_number :: "string \<Rightarrow> bool" where
  "finite_number t = (t \<noteq> ''Infinity'' \<and> t \<noteq> ''-Infinity'' \<and> t \<noteq> ''NaN'')"

fun JSON_stringify :: "jsval \<Rightarrow> string option" where
  "JSON_stringify Undefined = None"
| "JSON_stringify Null = Some ''null''"
| "JSON_stringify (Bool b) = Some (if b then ''true'' else ''false'')"
| "JSON_stringify (Num t) = Some (if finite_number t then t else ''null'')"
| "JSON_stringify (Str t) = Some (quote t)"
| "JSON_stringify (Arr xs) =
     Some (''['' @ join '','' (map (\<lambda>x. case JSON_stringify x of None \<Rightarrow> ''null'' | Some t \<Rightarrow> t) xs) @ '']'')"
| "JSON_stringify (Obj kvs) =
     Some (''{'' @ join '','' (concat (map (\<lambda>p. case JSON_stringify (snd p) of
                                                   None \<Rightarrow> []
                                                 | Some t \<Rightarrow> [quote (fst p) @ '':'' @ t]) kvs)) @ ''}'')"

subsection \<open>encodeURIComponent\<close>

text \<open>Every byte outside \<^verbatim>\<open>A-Z a-z 0-9 - _ . ! ~ * ' ( )\<close> becomes \<^verbatim>\<open>%XX\<close> in upper-case
  hexadecimal; on UTF-8 bytes that is what the function does to a well-formed string.\<close>

definition unreserved :: "char \<Rightarrow> bool" where
  "unreserved c =
     (let n = (of_char c :: nat) in
        (48 \<le> n \<and> n \<le> 57) \<or> (65 \<le> n \<and> n \<le> 90) \<or> (97 \<le> n \<and> n \<le> 122)
        \<or> c \<in> set [CHR ''-'', CHR ''_'', CHR ''.'', CHR ''!'', CHR ''~'', CHR ''*'', CHR 0x27, CHR ''('', CHR '')''])"

definition HEX :: "nat \<Rightarrow> char" where
  "HEX n = ''0123456789ABCDEF'' ! n"

definition percent :: "char \<Rightarrow> string" where
  "percent c = (if unreserved c then [c]
                else [CHR ''%'', HEX (of_char c div 16), HEX (of_char c mod 16)])"

definition encodeURIComponent :: "string \<Rightarrow> string" where
  "encodeURIComponent t = concat (map percent t)"

section \<open>The data of the service\<close>

text \<open>
  The interfaces of the source are compile-time types. An argument of type
  \<^verbatim>\<open>UserAnnotation\<close> is at run time any object that has the properties \<^verbatim>\<open>resource\<close>,
  \<^verbatim>\<open>item\<close>, \<^verbatim>\<open>evidence\<close> and \<^verbatim>\<open>comment\<close>, in the order its maker gave them, and it may have
  others: an \<^verbatim>\<open>Annotation\<close>, which has \<^verbatim>\<open>created\<close>, \<^verbatim>\<open>creator\<close> and \<^verbatim>\<open>id\<close> too, is one.
  \<^verbatim>\<open>addAnnotation\<close> reads no property of its argument and copies them all, so the
  argument is modelled as the list of its properties.
\<close>

type_synonym UserAnnotation = "(string \<times> jsval) list"

record UserData =
  name :: string
  email :: string
  orcid :: string
  canUpdate :: bool

text \<open>The JavaScript object a \<^verbatim>\<open>UserData\<close> is.\<close>

definition UserData_val :: "UserData \<Rightarrow> jsval" where
  "UserData_val u =
     Obj [(''name'', Str (name u)), (''email'', Str (email u)),
          (''orcid'', Str (orcid u)), (''canUpdate'', Bool (canUpdate u))]"

definition ErrorResult :: "string \<Rightarrow> jsval" where
  "ErrorResult msg = Obj [(''error'', Str msg)]"

section \<open>The browser\<close>

text \<open>The cookie jar behind \<^verbatim>\<open>js-cookie\<close>: a cookie is the text written and the attributes
  it was written with (\<open>expires\<close> in days). Expiry itself needs a clock and is not
  modelled.\<close>

record cookie =
  cookie_value :: string
  secure :: bool
  expires :: "nat option"

type_synonym jar = "string \<rightharpoonup> cookie"

definition Cookies_get :: "jar \<Rightarrow> string \<Rightarrow> string option" where
  "Cookies_get j n = map_option cookie_value (j n)"

definition Cookies_set :: "string \<Rightarrow> jsval \<Rightarrow> bool \<Rightarrow> nat option \<Rightarrow> jar \<Rightarrow> jar" where
  "Cookies_set n v sec days j = j(n \<mapsto> \<lparr>cookie_value = ToString v, secure = sec, expires = days\<rparr>)"

definition Cookies_remove :: "string \<Rightarrow> jar \<Rightarrow> jar" where
  "Cookies_remove n j = j(n := None)"

text \<open>\<^verbatim>\<open>Cookies.get(n) || ''\<close>\<close>

definition cookie_or_empty :: "jar \<Rightarrow> string \<Rightarrow> string" where
  "cookie_or_empty j n = (case Cookies_get j n of None \<Rightarrow> [] | Some t \<Rightarrow> t)"

text \<open>What \<^verbatim>\<open>fetch\<close> is called with, and what comes back. \<open>Fails\<close> is a rejected
  \<^verbatim>\<open>fetch\<close>: no connection, or the abort that the ten-second timer triggers. A body
  that is not JSON is \<open>None\<close>: \<^verbatim>\<open>response.json()\<close> rejects on it.\<close>

datatype http_method = GET | POST

record request =
  req_method :: http_method
  req_url :: string
  req_headers :: "(string \<times> string) list"
  req_body :: "string option"

record response =
  status :: nat
  statusText :: string
  body :: "jsval option"

definition ok :: "response \<Rightarrow> bool" where
  "ok r = (200 \<le> status r \<and> status r \<le> 299)"

datatype fetch_result = Fails | Responds response

section \<open>AnnotationService\<close>

text \<open>The three private fields of an instance, with the two parts of the browser that
  its methods touch: the cookie jar and the calls of \<^verbatim>\<open>fetch\<close> made so far.\<close>

record state =
  serverEndpoint :: string
  currentError :: jsval
  currentUser :: jsval
  cookies :: jar
  fetched :: "request list"

text \<open>The constructor: \<^verbatim>\<open>slice(-1)\<close> is the last character (the empty string of an
  empty one), \<^verbatim>\<open>slice(0, -1)\<close> all but the last.\<close>

definition strip_slash :: "string \<Rightarrow> string" where
  "strip_slash url =
     (if url \<noteq> [] \<and> last url = CHR ''/'' then butlast url else url)"

definition constructor :: "string \<Rightarrow> jar \<Rightarrow> state" where
  "constructor url j =
     \<lparr>serverEndpoint = strip_slash url,
      currentError = Null, currentUser = Null, cookies = j, fetched = []\<rparr>"

text \<open>\<^verbatim>\<open>encodeURIComponent(JSON.stringify(value))\<close>; an undefined result is coerced to the
  text \<^verbatim>\<open>undefined\<close>.\<close>

definition encoded_json :: "jsval \<Rightarrow> string" where
  "encoded_json v =
     encodeURIComponent (case JSON_stringify v of None \<Rightarrow> ''undefined'' | Some t \<Rightarrow> t)"

text \<open>The first half of \<^verbatim>\<open>#request\<close>: the URL and options handed to \<^verbatim>\<open>fetch\<close>.
  The \<^verbatim>\<open>for\<close> loop over \<^verbatim>\<open>Object.entries(parameters)\<close> is the \<open>foldl\<close>.\<close>

definition request_options :: "string \<Rightarrow> http_method \<Rightarrow> (string \<times> jsval) list \<Rightarrow> state \<Rightarrow> request" where
  "request_options endpoint method parameters s =
     (let url = serverEndpoint s @ ''/'' @ endpoint;
          userApiKey = cookie_or_empty (cookies s) ''user-token'';
          sessionKey = cookie_or_empty (cookies s) ''annotation-key''
      in case method of
           GET \<Rightarrow>
             (let params = foldl (\<lambda>ps (key, v). ps @ [key @ ''='' @ encoded_json v]) [] parameters;
                  params = params @ [''key='' @ encodeURIComponent userApiKey];
                  params = params @ [''session='' @ encodeURIComponent sessionKey]
              in \<lparr>req_method = GET,
                  req_url = url @ ''?'' @ join ''&'' params,
                  req_headers = [(''Accept'', ''application/json; charset=utf-8''),
                                 (''Cache-Control'', ''no-store'')],
                  req_body = None\<rparr>)
         | POST \<Rightarrow>
             (let params = Object_assign [(''key'', Str userApiKey), (''session'', Str sessionKey)]
                                         parameters
              in \<lparr>req_method = POST,
                  req_url = url,
                  req_headers = [(''Accept'', ''application/json; charset=utf-8''),
                                 (''Content-Type'', ''application/json; charset=utf-8''),
                                 (''Cache-Control'', ''no-store'')],
                  req_body = JSON_stringify (Obj params)\<rparr>))"

text \<open>\<^verbatim>\<open>#request\<close>. The reply of the server is an argument: the method calls \<^verbatim>\<open>fetch\<close>
  once.\<close>

definition request :: "string \<Rightarrow> http_method \<Rightarrow> (string \<times> jsval) list \<Rightarrow> fetch_result \<Rightarrow> state \<Rightarrow> jsval promise \<times> state" where
  "request endpoint method parameters reply s =
     (let s = s\<lparr>fetched := fetched s @ [request_options endpoint method parameters s]\<rparr>
      in case reply of
           Fails \<Rightarrow> (Rejected FetchFailure, s)
         | Responds r \<Rightarrow>
             if ok r then
               (case body r of
                  None \<Rightarrow> (Rejected SyntaxError, s)
                | Some v \<Rightarrow> (Resolved v, s))
             else
               (let s = s\<lparr>currentError := ErrorResult (decimal (status r) @ '' '' @ statusText r)\<rparr>
                in (Resolved (currentError s), s)))"

definition authenticate :: "fetch_result \<Rightarrow> state \<Rightarrow> jsval promise \<times> state" where
  "authenticate reply s =
     (let s = s\<lparr>currentError := Null\<rparr>;
          s = s\<lparr>currentUser := Null\<rparr>
      in case request ''authenticate'' GET [] reply s of
           (Rejected e, s) \<Rightarrow> (Rejected e, s)
         | (Resolved userData, s) \<Rightarrow>
             (case in_op ''error'' userData of
                None \<Rightarrow> (Rejected TypeError, s)
              | Some False \<Rightarrow>
                  (let s = s\<lparr>cookies := Cookies_set ''annotation-key'' (get_prop ''session'' userData)
                                                      True (Some 1) (cookies s)\<rparr>;
                       s = s\<lparr>currentUser := get_prop ''data'' userData\<rparr>
                   in (Resolved (currentUser s), s))
              | Some True \<Rightarrow>
                  (let s = s\<lparr>cookies := Cookies_remove ''annotation-key'' (cookies s)\<rparr>
                   in (Resolved (currentError s), s))))"

definition unauthenticate :: "fetch_result \<Rightarrow> state \<Rightarrow> jsval promise \<times> state" where
  "unauthenticate reply s =
     (let s = s\<lparr>currentError := Null\<rparr>;
          s = s\<lparr>currentUser := Null\<rparr>
      in case request ''unauthenticate'' GET [] reply s of
           (Rejected e, s) \<Rightarrow> (Rejected e, s)
         | (Resolved resultData, s) \<Rightarrow>
             (case in_op ''success'' resultData of
                None \<Rightarrow> (Rejected TypeError, s)
              | Some True \<Rightarrow> (Resolved resultData, s)
              | Some False \<Rightarrow> (Resolved (currentError s), s)))"

text \<open>The four reading methods end alike: the body when it has no \<^verbatim>\<open>error\<close> key,
  the field \<^verbatim>\<open>#currentError\<close> otherwise.\<close>

definition body_or_currentError :: "jsval promise \<times> state \<Rightarrow> jsval promise \<times> state" where
  "body_or_currentError p =
     (case p of
        (Rejected e, s) \<Rightarrow> (Rejected e, s)
      | (Resolved v, s) \<Rightarrow>
          (case in_op ''error'' v of
             None \<Rightarrow> (Rejected TypeError, s)
           | Some False \<Rightarrow> (Resolved v, s)
           | Some True \<Rightarrow> (Resolved (currentError s), s)))"

definition annotatedItemIds :: "string \<Rightarrow> fetch_result \<Rightarrow> state \<Rightarrow> jsval promise \<times> state" where
  "annotatedItemIds resourceId reply s =
     body_or_currentError (request ''items/'' GET [(''resource'', Str resourceId)] reply s)"

definition drawnFeatures :: "string \<Rightarrow> fetch_result \<Rightarrow> state \<Rightarrow> jsval promise \<times> state" where
  "drawnFeatures resourceId reply s =
     body_or_currentError (request ''features/'' GET [(''resource'', Str resourceId)] reply s)"

definition itemAnnotations :: "string \<Rightarrow> string \<Rightarrow> fetch_result \<Rightarrow> state \<Rightarrow> jsval promise \<times> state" where
  "itemAnnotations resourceId ItemId reply s =
     body_or_currentError
       (request ''annotations/'' GET [(''resource'', Str resourceId), (''item'', Str ItemId)] reply s)"

definition annotation :: "string \<Rightarrow> fetch_result \<Rightarrow> state \<Rightarrow> jsval promise \<times> state" where
  "annotation annotationId reply s =
     body_or_currentError (request ''annotation/'' GET [(''annotation'', Str annotationId)] reply s)"

text \<open>\<open>now\<close> is what \<^verbatim>\<open>(new Date()).toISOString()\<close> returns at the call.\<close>

definition annotationRequest :: "jsval \<Rightarrow> string \<Rightarrow> UserAnnotation \<Rightarrow> jsval" where
  "annotationRequest user now userAnnotation =
     Obj (Object_assign [(''creator'', user), (''created'', Str now)] userAnnotation)"

definition addAnnotation :: "UserAnnotation \<Rightarrow> string \<Rightarrow> fetch_result \<Rightarrow> state \<Rightarrow> jsval promise \<times> state" where
  "addAnnotation userAnnotation now reply s =
     (if truthy (currentUser s) \<and> truthy (get_prop ''canUpdate'' (currentUser s)) then
        (case request ''annotation/'' POST
                [(''data'', annotationRequest (currentUser s) now userAnnotation)] reply s of
           (Rejected e, s) \<Rightarrow> (Rejected e, s)
         | (Resolved annotationResponse, s) \<Rightarrow>
             (case in_op ''error'' annotationResponse of
                None \<Rightarrow> (Rejected TypeError, s)
              | Some False \<Rightarrow> (Resolved annotationResponse, s)
              | Some True \<Rightarrow>
                  (let s = s\<lparr>currentError := annotationResponse\<rparr>
                   in (Resolved (currentError s), s))))
      else
        (let s = s\<lparr>currentError := ErrorResult ''user cannot add annotation''\<rparr>
         in (Resolved (currentError s), s)))"

section \<open>Sequences of calls\<close>

datatype operation =
    Authenticate
  | Unauthenticate
  | AnnotatedItemIds string
  | DrawnFeatures string
  | ItemAnnotations string string
  | GetAnnotation string
  | AddAnnotation UserAnnotation string

fun call :: "operation \<Rightarrow> fetch_result \<Rightarrow> state \<Rightarrow> jsval promise \<times> state" where
  "call Authenticate reply s = authenticate reply s"
| "call Unauthenticate reply s = unauthenticate reply s"
| "call (AnnotatedItemIds r) reply s = annotatedItemIds r reply s"
| "call (DrawnFeatures r) reply s = drawnFeatures r reply s"
| "call (ItemAnnotations r i) reply s = itemAnnotations r i reply s"
| "call (GetAnnotation a) reply s = annotation a reply s"
| "call (AddAnnotation a now) reply s = addAnnotation a now reply s"

text \<open>Calls made one after the other, each awaited, each with the reply the server
  gives it.\<close>

fun run :: "(operation \<times> fetch_result) list \<Rightarrow> state \<Rightarrow> state" where
  "run [] s = s"
| "run ((op, reply) # rest) s = run rest (snd (call op reply s))"

section \<open>The notions the specification uses\<close>

text \<open>A reply succeeds when it is a 2xx response whose JSON body has no \<^verbatim>\<open>error\<close> key;
  \<open>reply_success\<close> is then that body.\<close>

fun reply_success :: "fetch_result \<Rightarrow> jsval option" where
  "reply_success Fails = None"
| "reply_success (Responds r) =
     (if ok r then
        (case body r of
           None \<Rightarrow> None
         | Some v \<Rightarrow> if in_op ''error'' v = Some False then Some v else None)
      else None)"

text \<open>The error a failing reply carries: the transport error \<^verbatim>\<open>{error: "<status> <text>"}\<close>
  of a response outside 2xx, or the body of a 2xx response that has an \<^verbatim>\<open>error\<close> key
  (an application error).\<close>

fun reply_error :: "fetch_result \<Rightarrow> jsval option" where
  "reply_error Fails = None"
| "reply_error (Responds r) =
     (if ok r then
        (case body r of
           None \<Rightarrow> None
         | Some v \<Rightarrow> if in_op ''error'' v = Some True then Some v else None)
      else Some (ErrorResult (decimal (status r) @ '' '' @ statusText r)))"

fun is_read :: "operation \<Rightarrow> bool" where
  "is_read (AnnotatedItemIds r) = True"
| "is_read (DrawnFeatures r) = True"
| "is_read (ItemAnnotations r i) = True"
| "is_read (GetAnnotation a) = True"
| "is_read op = False"

text \<open>The query string in the specification's words: one pair \<^verbatim>\<open>key=value\<close> for each
  parameter, the value JSON-serialised and then percent-encoded, and after them the API
  key and the session credential.\<close>

fun spec_query :: "(string \<times> jsval) list \<Rightarrow> string \<Rightarrow> string \<Rightarrow> string" where
  "spec_query [] apiKey session =
     ''key='' @ encodeURIComponent apiKey @ ''&session='' @ encodeURIComponent session"
| "spec_query ((k, v) # ps) apiKey session =
     k @ ''='' @ encoded_json v @ ''&'' @ spec_query ps apiKey session"

section \<open>Example data\<close>

definition reply_200 :: "jsval \<Rightarrow> fetch_result" where
  "reply_200 v = Responds \<lparr>status = 200, statusText = ''OK'', body = Some v\<rparr>"

definition reply_500 :: fetch_result where
  "reply_500 = Responds \<lparr>status = 500, statusText = ''Internal Server Error'', body = None\<rparr>"

definition user_A :: "bool \<Rightarrow> jsval" where
  "user_A upd = UserData_val \<lparr>name = ''A'', email = ''a@b'', orcid = ''0000'', canUpdate = upd\<rparr>"

definition a_note :: UserAnnotation where
  "a_note = [(''resource'', Str ''r1''), (''item'', Str ''i1''), (''evidence'', Arr []),
             (''comment'', Str ''note'')]"

text \<open>An \<^verbatim>\<open>Annotation\<close> as \<^verbatim>\<open>annotation\<close> returns one: made earlier, by another user.\<close>

definition user_B :: jsval where
  "user_B = UserData_val \<lparr>name = ''B'', email = ''b@c'', orcid = ''1111'', canUpdate = True\<rparr>"

definition an_annotation :: UserAnnotation where
  "an_annotation =
     [(''id'', Str ''https://x/a/1''), (''creator'', user_B),
      (''created'', Str ''2020-01-01T00:00:00.000Z''),
      (''resource'', Str ''r1''), (''item'', Str ''i1''), (''evidence'', Arr []),
      (''comment'', Str ''note'')]"

definition fresh :: state where
  "fresh = constructor ''https://x/y'' Map.empty"

text \<open>The instance after the server has accepted the user.\<close>

definition signed_in :: "bool \<Rightarrow> state" where
  "signed_in upd =
     snd (authenticate (reply_200 (Obj [(''session'', Str ''abc''), (''data'', user_A upd)])) fresh)"

section \<open>What \<^verbatim>\<open>#request\<close> changes\<close>

lemma request_currentUser: "currentUser (snd (request e m p reply s)) = currentUser s"
  by (simp add: request_def Let_def split: fetch_result.splits option.splits)

lemma request_cookies: "cookies (snd (request e m p reply s)) = cookies s"
  by (simp add: request_def Let_def split: fetch_result.splits option.splits)

lemma request_fetched:
  "fetched (snd (request e m p reply s)) = fetched s @ [request_options e m p s]"
  by (simp add: request_def Let_def split: fetch_result.splits option.splits)

lemma request_success:
  "reply_success reply = Some v \<Longrightarrow>
   request e m p reply s = (Resolved v, s\<lparr>fetched := fetched s @ [request_options e m p s]\<rparr>)"
  by (cases reply) (auto simp: request_def Let_def split: option.splits if_splits)

lemma body_or_currentError_state: "snd (body_or_currentError p) = snd p"
  by (cases p) (auto simp: body_or_currentError_def split: promise.splits option.splits bool.splits)

lemma addAnnotation_currentUser:
  "currentUser (snd (addAnnotation a now reply s)) = currentUser s"
  by (auto simp: addAnnotation_def request_def Let_def
      split: fetch_result.splits option.splits bool.splits promise.splits prod.splits)

lemma addAnnotation_cookies:
  "cookies (snd (addAnnotation a now reply s)) = cookies s"
  by (auto simp: addAnnotation_def request_def Let_def
      split: fetch_result.splits option.splits bool.splits promise.splits prod.splits)

lemma unauthenticate_currentUser: "currentUser (snd (unauthenticate reply s)) = Null"
  by (auto simp: unauthenticate_def request_def Let_def
      split: fetch_result.splits option.splits bool.splits promise.splits prod.splits)

lemma unauthenticate_cookies: "cookies (snd (unauthenticate reply s)) = cookies s"
  by (auto simp: unauthenticate_def request_def Let_def
      split: fetch_result.splits option.splits bool.splits promise.splits prod.splits)

lemma signed_in_user: "currentUser (signed_in upd) = user_A upd"
  by (simp add: signed_in_def authenticate_def request_def reply_200_def ok_def Let_def
      fresh_def constructor_def)

lemma signed_in_cookies:
  "cookies (signed_in upd) =
     [''annotation-key'' \<mapsto> \<lparr>cookie_value = ''abc'', secure = True, expires = Some 1\<rparr>]"
  by (simp add: signed_in_def authenticate_def request_def reply_200_def ok_def Let_def
      fresh_def constructor_def Cookies_set_def)

lemma signed_in_endpoint: "serverEndpoint (signed_in upd) = ''https://x/y''"
  by (simp add: signed_in_def authenticate_def request_def reply_200_def ok_def Let_def
      fresh_def constructor_def strip_slash_def)

section \<open>addAnnotation\<close>

text \<open>
  C1. In every state where \<^verbatim>\<open>currentUser\<close> is null or its \<^verbatim>\<open>canUpdate\<close> is false, and for
  every annotation, \<^verbatim>\<open>addAnnotation\<close> resolves to
  \<^verbatim>\<open>{error: "user cannot add annotation"}\<close> and \<^verbatim>\<open>fetch\<close> is not called: the list of
  calls made is the one before, whatever the server would have replied.
\<close>

theorem addAnnotation_refused:
  assumes "currentUser s = Null \<or> get_prop ''canUpdate'' (currentUser s) = Bool False"
  shows "fst (addAnnotation a now reply s)
           = Resolved (Obj [(''error'', Str ''user cannot add annotation'')])
       \<and> fetched (snd (addAnnotation a now reply s)) = fetched s"
  using assms by (auto simp: addAnnotation_def ErrorResult_def Let_def)

theorem addAnnotation_refused_witness:
  "get_prop ''canUpdate'' (currentUser (signed_in False)) = Bool False
   \<and> fst (addAnnotation a_note ''2023-06-01T00:00:00.000Z'' Fails (signed_in False))
       = Resolved (Obj [(''error'', Str ''user cannot add annotation'')])
   \<and> fetched (snd (addAnnotation a_note ''2023-06-01T00:00:00.000Z'' Fails (signed_in False)))
       = fetched (signed_in False)"
proof -
  have h: "get_prop ''canUpdate'' (currentUser (signed_in False)) = Bool False"
    by (simp add: signed_in_user user_A_def UserData_val_def)
  from addAnnotation_refused [of "signed_in False" a_note "''2023-06-01T00:00:00.000Z''" Fails] h
  show ?thesis by simp
qed

lemma truthy_of_flag: "get_prop k v = Bool True \<Longrightarrow> truthy v"
  by (cases v) auto

subsection \<open>What \<^verbatim>\<open>Object.assign\<close> makes\<close>

lemma insert_index_map_of:
  "k \<notin> fst ` set t \<Longrightarrow> map_of (insert_index k v t) = (map_of t)(k \<mapsto> v)"
  by (induction t) (auto simp: fun_upd_twist)

lemma insert_index_keys: "fst ` set (insert_index k v t) = insert k (fst ` set t)"
  by (induction t) auto

lemma append_new_map_of:
  "k \<notin> fst ` set t \<Longrightarrow> map_of (t @ [(k, v)]) = (map_of t)(k \<mapsto> v)"
  by (induction t) (auto simp: fun_upd_twist)

lemma set_prop_map_of:
  "k \<noteq> ''__proto__'' \<Longrightarrow> map_of (set_prop k v t) = (map_of t)(k \<mapsto> v)"
  by (simp add: set_prop_def update_conv' insert_index_map_of append_new_map_of del: map_of_append)

lemma set_prop_keys:
  "k \<noteq> ''__proto__'' \<Longrightarrow> fst ` set (set_prop k v t) = insert k (fst ` set t)"
proof -
  assume "k \<noteq> ''__proto__''"
  then have "dom (map_of (set_prop k v t)) = insert k (dom (map_of t))"
    by (simp add: set_prop_map_of)
  then show ?thesis
    by (simp add: dom_map_of_conv_image_fst)
qed

lemma assign_Cons: "Object_assign t ((k, v) # src) = Object_assign (set_prop k v t) src"
  by (simp add: Object_assign_def)

lemma assign_map_of:
  "distinct (map fst src) \<Longrightarrow>
   map_of (Object_assign t src) k =
     (if k \<noteq> ''__proto__'' \<and> k \<in> fst ` set src then map_of src k else map_of t k)"
proof (induction src arbitrary: t)
  case Nil
  then show ?case by (simp add: Object_assign_def)
next
  case (Cons p src)
  obtain k' v' where p: "p = (k', v')" by (cases p)
  from Cons.prems have d: "distinct (map fst src)" and n: "k' \<notin> fst ` set src"
    by (auto simp: p)
  show ?case
  proof (cases "k' = ''__proto__''")
    case True
    then show ?thesis
      using Cons.IH [OF d, of t] n by (auto simp: p assign_Cons set_prop_def)
  next
    case False
    then show ?thesis
      using Cons.IH [OF d, of "set_prop k' v' t"] n
      by (auto simp: p assign_Cons set_prop_map_of)
  qed
qed

lemma assign_keys:
  "fst ` set (Object_assign t src) = fst ` set t \<union> (fst ` set src - {''__proto__''})"
proof (induction src arbitrary: t)
  case Nil
  then show ?case by (simp add: Object_assign_def)
next
  case (Cons p src)
  obtain k' v' where p: "p = (k', v')" by (cases p)
  show ?case
  proof (cases "k' = ''__proto__''")
    case True
    then show ?thesis
      using Cons.IH [of t] by (auto simp: p assign_Cons set_prop_def)
  next
    case False
    then show ?thesis
      using Cons.IH [of "set_prop k' v' t"] by (auto simp: p assign_Cons set_prop_keys)
  qed
qed

lemma post_params:
  "Object_assign [(''key'', k), (''session'', x)] [(''data'', d)] =
     [(''key'', k), (''session'', x), (''data'', d)]"
  by (simp add: Object_assign_def set_prop_def is_index_def)

lemma addAnnotation_fetched:
  assumes "get_prop ''canUpdate'' (currentUser s) = Bool True"
  shows "fetched (snd (addAnnotation a now reply s)) =
         fetched s @
         [\<lparr>req_method = POST,
           req_url = serverEndpoint s @ ''/annotation/'',
           req_headers = [(''Accept'', ''application/json; charset=utf-8''),
                          (''Content-Type'', ''application/json; charset=utf-8''),
                          (''Cache-Control'', ''no-store'')],
           req_body = JSON_stringify (Obj
             [(''key'', Str (cookie_or_empty (cookies s) ''user-token'')),
              (''session'', Str (cookie_or_empty (cookies s) ''annotation-key'')),
              (''data'', Obj (Object_assign
                 [(''creator'', currentUser s), (''created'', Str now)] a))])\<rparr>]"
proof -
  have t: "truthy (currentUser s) \<and> truthy (get_prop ''canUpdate'' (currentUser s))"
    using assms by (simp add: truthy_of_flag)
  have sent: "fetched (snd (addAnnotation a now reply s)) =
      fetched s @ [request_options ''annotation/'' POST
                     [(''data'', annotationRequest (currentUser s) now a)] s]"
    using t by (auto simp: addAnnotation_def request_def Let_def
        split: fetch_result.splits option.splits bool.splits)
  show ?thesis
    unfolding sent
    by (simp add: request_options_def annotationRequest_def post_params Let_def
        del: JSON_stringify.simps)
qed

text \<open>
  C6, as the code has it. When \<^verbatim>\<open>currentUser\<close> is not null and its \<^verbatim>\<open>canUpdate\<close> is true,
  \<^verbatim>\<open>addAnnotation\<close> makes one call of \<^verbatim>\<open>fetch\<close>: a POST to \<^verbatim>\<open><endpoint>/annotation/\<close> whose
  body is the JSON text of \<^verbatim>\<open>{key, session, data}\<close>. When the annotation given has no
  property \<^verbatim>\<open>creator\<close> or \<^verbatim>\<open>created\<close> of its own, \<^verbatim>\<open>data\<close> has \<^verbatim>\<open>creator\<close>, the current user,
  and \<^verbatim>\<open>created\<close>, the ISO string of the clock at the call, and beside them the properties
  of the annotation, each with the value given (all but \<^verbatim>\<open>__proto__\<close>, which
  \<^verbatim>\<open>Object.assign\<close> does not copy), and no others.
\<close>

theorem addAnnotation_payload:
  assumes "currentUser s \<noteq> Null" and "get_prop ''canUpdate'' (currentUser s) = Bool True"
    and "distinct (map fst a)"
    and "''creator'' \<notin> set (map fst a)" and "''created'' \<notin> set (map fst a)"
  shows "fetched (snd (addAnnotation a now reply s)) =
         fetched s @
         [\<lparr>req_method = POST,
           req_url = serverEndpoint s @ ''/annotation/'',
           req_headers = [(''Accept'', ''application/json; charset=utf-8''),
                          (''Content-Type'', ''application/json; charset=utf-8''),
                          (''Cache-Control'', ''no-store'')],
           req_body = JSON_stringify (Obj
             [(''key'', Str (cookie_or_empty (cookies s) ''user-token'')),
              (''session'', Str (cookie_or_empty (cookies s) ''annotation-key'')),
              (''data'', annotationRequest (currentUser s) now a)])\<rparr>]
       \<and> get_prop ''creator'' (annotationRequest (currentUser s) now a) = currentUser s
       \<and> get_prop ''created'' (annotationRequest (currentUser s) now a) = Str now
       \<and> (\<forall>k v. (k, v) \<in> set a \<and> k \<noteq> ''__proto__'' \<longrightarrow>
             get_prop k (annotationRequest (currentUser s) now a) = v)
       \<and> set (map fst (Object_assign [(''creator'', currentUser s), (''created'', Str now)] a))
           = {''creator'', ''created''} \<union> (set (map fst a) - {''__proto__''})"
proof -
  have body: "fetched (snd (addAnnotation a now reply s)) =
         fetched s @
         [\<lparr>req_method = POST,
           req_url = serverEndpoint s @ ''/annotation/'',
           req_headers = [(''Accept'', ''application/json; charset=utf-8''),
                          (''Content-Type'', ''application/json; charset=utf-8''),
                          (''Cache-Control'', ''no-store'')],
           req_body = JSON_stringify (Obj
             [(''key'', Str (cookie_or_empty (cookies s) ''user-token'')),
              (''session'', Str (cookie_or_empty (cookies s) ''annotation-key'')),
              (''data'', annotationRequest (currentUser s) now a)])\<rparr>]"
    using addAnnotation_fetched [OF assms(2)] by (simp add: annotationRequest_def)
  have creator: "get_prop ''creator'' (annotationRequest (currentUser s) now a) = currentUser s"
    using assms(4) by (simp add: annotationRequest_def assign_map_of [OF assms(3)])
  have created: "get_prop ''created'' (annotationRequest (currentUser s) now a) = Str now"
    using assms(5) by (simp add: annotationRequest_def assign_map_of [OF assms(3)])
  have copied: "get_prop k (annotationRequest (currentUser s) now a) = v"
    if "(k, v) \<in> set a" and "k \<noteq> ''__proto__''" for k v
  proof -
    from that(1) assms(3) have "map_of a k = Some v" by simp
    moreover from that(1) have "k \<in> fst ` set a" by force
    ultimately show ?thesis
      using that(2) by (simp add: annotationRequest_def assign_map_of [OF assms(3)])
  qed
  have keys: "set (map fst (Object_assign [(''creator'', currentUser s), (''created'', Str now)] a))
           = {''creator'', ''created''} \<union> (set (map fst a) - {''__proto__''})"
    using assign_keys [of "[(''creator'', currentUser s), (''created'', Str now)]" a] by simp
  from body creator created copied keys show ?thesis by blast
qed

theorem addAnnotation_payload_witness:
  "fetched (snd (addAnnotation a_note ''2023-06-01T00:00:00.000Z'' (reply_200 Null) (signed_in True))) =
       fetched (signed_in True) @
       [\<lparr>req_method = POST,
         req_url = ''https://x/y/annotation/'',
         req_headers = [(''Accept'', ''application/json; charset=utf-8''),
                        (''Content-Type'', ''application/json; charset=utf-8''),
                        (''Cache-Control'', ''no-store'')],
         req_body = JSON_stringify (Obj
           [(''key'', Str []),
            (''session'', Str ''abc''),
            (''data'', Obj [(''creator'', user_A True),
                            (''created'', Str ''2023-06-01T00:00:00.000Z''),
                            (''resource'', Str ''r1''), (''item'', Str ''i1''),
                            (''evidence'', Arr []), (''comment'', Str ''note'')])])\<rparr>]
   \<and> get_prop ''creator'' (annotationRequest (user_A True) ''2023-06-01T00:00:00.000Z'' a_note)
       = user_A True
   \<and> get_prop ''comment'' (annotationRequest (user_A True) ''2023-06-01T00:00:00.000Z'' a_note)
       = Str ''note''"
proof -
  have h1: "currentUser (signed_in True) \<noteq> Null"
    by (simp add: signed_in_user user_A_def UserData_val_def)
  have h2: "get_prop ''canUpdate'' (currentUser (signed_in True)) = Bool True"
    by (simp add: signed_in_user user_A_def UserData_val_def)
  have h3: "distinct (map fst a_note)"
    and h4: "''creator'' \<notin> set (map fst a_note)" and h5: "''created'' \<notin> set (map fst a_note)"
    and h6: "(''comment'', Str ''note'') \<in> set a_note"
    by (simp_all add: a_note_def)
  have d: "annotationRequest (user_A True) ''2023-06-01T00:00:00.000Z'' a_note =
      Obj [(''creator'', user_A True), (''created'', Str ''2023-06-01T00:00:00.000Z''),
           (''resource'', Str ''r1''), (''item'', Str ''i1''),
           (''evidence'', Arr []), (''comment'', Str ''note'')]"
    by (simp add: annotationRequest_def Object_assign_def set_prop_def is_index_def a_note_def)
  from addAnnotation_payload [OF h1 h2 h3 h4 h5, of "''2023-06-01T00:00:00.000Z''" "reply_200 Null"] h6
  show ?thesis
    by (simp add: signed_in_cookies signed_in_endpoint signed_in_user cookie_or_empty_def
        Cookies_get_def d del: JSON_stringify.simps)
qed

text \<open>
  The claim as the specification states it fails. A signed-in user who may update calls
  \<^verbatim>\<open>addAnnotation\<close> with an \<^verbatim>\<open>Annotation\<close> that another user made earlier: an object of
  a subtype of \<^verbatim>\<open>UserAnnotation\<close>, with \<^verbatim>\<open>creator\<close> and \<^verbatim>\<open>created\<close> of its own.
  \<^verbatim>\<open>Object.assign\<close> copies them over the stamps, and the \<^verbatim>\<open>data\<close> that is POSTed has the
  other user as \<^verbatim>\<open>creator\<close> and the earlier date as \<^verbatim>\<open>created\<close>.
\<close>

theorem input_overrides_stamps:
  "fetched (snd (addAnnotation an_annotation ''2023-06-01T00:00:00.000Z'' Fails (signed_in True))) =
       fetched (signed_in True) @
       [\<lparr>req_method = POST,
         req_url = ''https://x/y/annotation/'',
         req_headers = [(''Accept'', ''application/json; charset=utf-8''),
                        (''Content-Type'', ''application/json; charset=utf-8''),
                        (''Cache-Control'', ''no-store'')],
         req_body = JSON_stringify (Obj
           [(''key'', Str []),
            (''session'', Str ''abc''),
            (''data'', Obj [(''creator'', user_B),
                            (''created'', Str ''2020-01-01T00:00:00.000Z''),
                            (''id'', Str ''https://x/a/1''),
                            (''resource'', Str ''r1''), (''item'', Str ''i1''),
                            (''evidence'', Arr []), (''comment'', Str ''note'')])])\<rparr>]
   \<and> currentUser (signed_in True) = user_A True
   \<and> user_B \<noteq> user_A True
   \<and> get_prop ''creator'' (annotationRequest (currentUser (signed_in True))
                               ''2023-06-01T00:00:00.000Z'' an_annotation) = user_B
   \<and> get_prop ''created'' (annotationRequest (currentUser (signed_in True))
                               ''2023-06-01T00:00:00.000Z'' an_annotation)
       = Str ''2020-01-01T00:00:00.000Z''"
proof -
  have h2: "get_prop ''canUpdate'' (currentUser (signed_in True)) = Bool True"
    by (simp add: signed_in_user user_A_def UserData_val_def)
  have d: "Object_assign [(''creator'', user_A True), (''created'', Str ''2023-06-01T00:00:00.000Z'')]
             an_annotation =
      [(''creator'', user_B), (''created'', Str ''2020-01-01T00:00:00.000Z''),
       (''id'', Str ''https://x/a/1''), (''resource'', Str ''r1''), (''item'', Str ''i1''),
       (''evidence'', Arr []), (''comment'', Str ''note'')]"
    by (simp add: Object_assign_def set_prop_def is_index_def an_annotation_def)
  have n: "user_B \<noteq> user_A True"
    by (simp add: user_A_def user_B_def UserData_val_def)
  from addAnnotation_fetched [OF h2, of an_annotation "''2023-06-01T00:00:00.000Z''" Fails] n
  show ?thesis
    by (simp add: signed_in_cookies signed_in_endpoint signed_in_user cookie_or_empty_def
        Cookies_get_def annotationRequest_def d del: JSON_stringify.simps)
qed

section \<open>The constructor and the request URL\<close>

lemma strip_slash_added:
  "\<not> (url \<noteq> [] \<and> last url = CHR ''/'') \<Longrightarrow> strip_slash (url @ ''/'') = strip_slash url"
  by (auto simp: strip_slash_def)

text \<open>
  C7. For a base URL that does not end in \<^verbatim>\<open>/\<close>, the instance made from it and the
  instance made from it with one \<^verbatim>\<open>/\<close> added are the same: the stored end point is the
  URL without the added slash, so the options of every request, and the outcome of every
  call, agree.
\<close>

theorem trailing_slash_same_requests:
  assumes "\<not> (url \<noteq> [] \<and> last url = CHR ''/'')"
  shows "serverEndpoint (constructor (url @ ''/'') j) = url
       \<and> request_options endpoint method parameters (constructor (url @ ''/'') j)
           = request_options endpoint method parameters (constructor url j)
       \<and> call op reply (constructor (url @ ''/'') j) = call op reply (constructor url j)"
proof -
  have same: "constructor (url @ ''/'') j = constructor url j"
    using assms by (simp add: constructor_def strip_slash_added)
  have "serverEndpoint (constructor (url @ ''/'') j) = url"
    by (simp add: constructor_def strip_slash_def)
  with same show ?thesis
    by simp
qed

theorem trailing_slash_same_requests_witness:
  "\<not> (''https://x/y'' \<noteq> [] \<and> last ''https://x/y'' = CHR ''/'')
   \<and> serverEndpoint (constructor ''https://x/y/'' Map.empty) = ''https://x/y''
   \<and> request_options ''items/'' GET [(''resource'', Str ''r1'')] (constructor ''https://x/y/'' Map.empty)
       = request_options ''items/'' GET [(''resource'', Str ''r1'')] (constructor ''https://x/y'' Map.empty)
   \<and> call (AnnotatedItemIds ''r1'') reply_500 (constructor ''https://x/y/'' Map.empty)
       = call (AnnotatedItemIds ''r1'') reply_500 (constructor ''https://x/y'' Map.empty)"
proof -
  have h: "\<not> (''https://x/y'' \<noteq> [] \<and> last ''https://x/y'' = CHR ''/'')" by simp
  from trailing_slash_same_requests [OF h, of Map.empty "''items/''" GET "[(''resource'', Str ''r1'')]"
      "AnnotatedItemIds ''r1''" reply_500] h
  show ?thesis by simp
qed

lemma pushed_pairs:
  "foldl (\<lambda>ps (key, v). ps @ [f key v]) acc parameters = acc @ map (\<lambda>(key, v). f key v) parameters"
  by (induction parameters arbitrary: acc) auto

lemma join_Cons: "ys \<noteq> [] \<Longrightarrow> join sep (x # ys) = x @ sep @ join sep ys"
  by (cases ys) auto

lemma join_query:
  "join ''&'' (map (\<lambda>(key, v). key @ ''='' @ encoded_json v) parameters
               @ [''key='' @ encodeURIComponent a, ''session='' @ encodeURIComponent b])
     = spec_query parameters a b"
  by (induction parameters) (auto simp: join_Cons)

lemma signed_in_urls:
  "map req_url (fetched (signed_in upd)) = [''https://x/y/authenticate?key=&session='']"
  by (simp add: signed_in_def authenticate_def request_def reply_200_def ok_def Let_def
      fresh_def constructor_def strip_slash_def request_options_def cookie_or_empty_def
      Cookies_get_def encodeURIComponent_def)

text \<open>
  C8. Every GET that \<^verbatim>\<open>#request\<close> makes goes to \<^verbatim>\<open><endpoint>/<path>?<query>\<close>, where the
  query is one pair \<^verbatim>\<open>key=value\<close> per parameter in the order of the parameters, each
  value JSON-serialised and percent-encoded, then \<^verbatim>\<open>key=\<close> with the API key and
  \<^verbatim>\<open>session=\<close> with the session credential, both read from the cookies. The pairs of
  the parameters depend on the parameters alone.
\<close>

theorem GET_request_url:
  "fetched (snd (request endpoint GET parameters reply s)) =
     fetched s @
     [\<lparr>req_method = GET,
       req_url = serverEndpoint s @ ''/'' @ endpoint @ ''?''
                 @ spec_query parameters (cookie_or_empty (cookies s) ''user-token'')
                                         (cookie_or_empty (cookies s) ''annotation-key''),
       req_headers = [(''Accept'', ''application/json; charset=utf-8''),
                      (''Cache-Control'', ''no-store'')],
       req_body = None\<rparr>]"
proof -
  have "request_options endpoint GET parameters s =
     \<lparr>req_method = GET,
       req_url = serverEndpoint s @ ''/'' @ endpoint @ ''?''
                 @ join ''&'' (map (\<lambda>(key, v). key @ ''='' @ encoded_json v) parameters
                     @ [''key='' @ encodeURIComponent (cookie_or_empty (cookies s) ''user-token''),
                        ''session='' @ encodeURIComponent (cookie_or_empty (cookies s) ''annotation-key'')]),
       req_headers = [(''Accept'', ''application/json; charset=utf-8''),
                      (''Cache-Control'', ''no-store'')],
       req_body = None\<rparr>"
    by (simp add: request_options_def Let_def pushed_pairs)
  then show ?thesis
    by (simp only: request_fetched join_query)
qed

theorem GET_request_url_witness:
  "map req_url (fetched (snd (request ''annotations/'' GET
        [(''resource'', Str ''r 1''), (''item'', Str ''i/1'')] Fails (signed_in True)))) =
     [''https://x/y/authenticate?key=&session='',
      ''https://x/y/annotations/?resource=%22r%201%22&item=%22i%2F1%22&key=&session=abc'']"
proof -
  have q: "spec_query [(''resource'', Str ''r 1''), (''item'', Str ''i/1'')] [] ''abc''
             = ''resource=%22r%201%22&item=%22i%2F1%22&key=&session=abc''"
    by (simp add: encoded_json_def encodeURIComponent_def percent_def unreserved_def HEX_def
        quote_def escape_char_def)
  from GET_request_url [of "''annotations/''" "[(''resource'', Str ''r 1''), (''item'', Str ''i/1'')]"
      Fails "signed_in True"]
  show ?thesis
    by (simp add: signed_in_urls signed_in_cookies signed_in_endpoint q
        cookie_or_empty_def Cookies_get_def del: spec_query.simps)
qed

section \<open>The reading methods\<close>

lemma read_call:
  "is_read op \<Longrightarrow> \<exists>e p. call op reply s = body_or_currentError (request e GET p reply s)"
  by (cases op) (auto simp: annotatedItemIds_def drawnFeatures_def itemAnnotations_def annotation_def)

lemma body_or_currentError_success:
  "in_op ''error'' v = Some False \<Longrightarrow> body_or_currentError (Resolved v, s) = (Resolved v, s)"
  by (simp add: body_or_currentError_def)

lemma reply_success_no_error: "reply_success reply = Some v \<Longrightarrow> in_op ''error'' v = Some False"
  by (cases reply) (auto split: if_splits option.splits)

lemma failed_read_error:
  "currentError (snd (annotatedItemIds ''r1'' reply_500 fresh))
     = Obj [(''error'', Str ''500 Internal Server Error'')]"
  by (simp add: annotatedItemIds_def body_or_currentError_state request_def reply_500_def ok_def
      Let_def ErrorResult_def decimal.simps digit_def)

text \<open>
  C9. A reading method (\<^verbatim>\<open>annotatedItemIds\<close>, \<^verbatim>\<open>drawnFeatures\<close>, \<^verbatim>\<open>itemAnnotations\<close>,
  \<^verbatim>\<open>annotation\<close>) that gets a 2xx response whose body has no \<^verbatim>\<open>error\<close> key resolves to
  that body and leaves \<^verbatim>\<open>currentUser\<close> and \<^verbatim>\<open>currentError\<close> as they were: an error left
  by an earlier call stays.
\<close>

theorem successful_read_keeps_slots:
  assumes "is_read op" and "reply_success reply = Some v"
  shows "fst (call op reply s) = Resolved v
       \<and> currentUser (snd (call op reply s)) = currentUser s
       \<and> currentError (snd (call op reply s)) = currentError s"
proof -
  from assms(1) obtain e p where c: "call op reply s = body_or_currentError (request e GET p reply s)"
    using read_call by blast
  have "call op reply s = (Resolved v, s\<lparr>fetched := fetched s @ [request_options e GET p s]\<rparr>)"
    unfolding c request_success [OF assms(2)]
    by (rule body_or_currentError_success) (rule reply_success_no_error [OF assms(2)])
  then show ?thesis by simp
qed

theorem successful_read_keeps_slots_witness:
  "is_read (DrawnFeatures ''r1'')
   \<and> reply_success (reply_200 (Arr [])) = Some (Arr [])
   \<and> fst (call (DrawnFeatures ''r1'') (reply_200 (Arr [])) (snd (annotatedItemIds ''r1'' reply_500 fresh)))
       = Resolved (Arr [])
   \<and> currentError (snd (call (DrawnFeatures ''r1'') (reply_200 (Arr []))
                          (snd (annotatedItemIds ''r1'' reply_500 fresh))))
       = Obj [(''error'', Str ''500 Internal Server Error'')]"
proof -
  have h1: "is_read (DrawnFeatures ''r1'')" by simp
  have h2: "reply_success (reply_200 (Arr [])) = Some (Arr [])"
    by (simp add: reply_200_def ok_def)
  from successful_read_keeps_slots [OF h1 h2, of "snd (annotatedItemIds ''r1'' reply_500 fresh)"] h1 h2
  show ?thesis by (simp add: failed_read_error)
qed

section \<open>The two slots\<close>

lemma call_currentUser:
  "op \<noteq> Authenticate \<Longrightarrow> op \<noteq> Unauthenticate \<Longrightarrow>
   currentUser (snd (call op reply s)) = currentUser s"
  by (cases op)
    (simp_all add: annotatedItemIds_def drawnFeatures_def itemAnnotations_def annotation_def
      body_or_currentError_state request_currentUser addAnnotation_currentUser)

lemma call_cookies:
  "op \<noteq> Authenticate \<Longrightarrow> cookies (snd (call op reply s)) = cookies s"
  by (cases op)
    (simp_all add: annotatedItemIds_def drawnFeatures_def itemAnnotations_def annotation_def
      body_or_currentError_state request_cookies addAnnotation_cookies unauthenticate_cookies)

lemma authenticate_success:
  "reply_success reply = Some v \<Longrightarrow>
   fst (authenticate reply s) = Resolved (get_prop ''data'' v)
   \<and> currentUser (snd (authenticate reply s)) = get_prop ''data'' v
   \<and> currentError (snd (authenticate reply s)) = Null
   \<and> cookies (snd (authenticate reply s)) =
       (cookies s)(''annotation-key'' \<mapsto>
          \<lparr>cookie_value = ToString (get_prop ''session'' v), secure = True, expires = Some 1\<rparr>)"
  by (simp add: authenticate_def request_success reply_success_no_error Let_def Cookies_set_def)

lemma ErrorResult_has_error: "in_op ''error'' (ErrorResult msg) = Some True"
  by (simp add: ErrorResult_def)

lemma authenticate_no_success:
  "reply_success reply = None \<Longrightarrow> currentUser (snd (authenticate reply s)) = Null"
  by (cases reply)
    (auto simp: authenticate_def request_def Let_def ErrorResult_has_error
      split: option.splits bool.splits if_splits)

lemma authenticate_error:
  "reply_error reply = Some e \<Longrightarrow>
   currentUser (snd (authenticate reply s)) = Null
   \<and> cookies (snd (authenticate reply s)) = (cookies s)(''annotation-key'' := None)"
  by (cases reply)
    (auto simp: authenticate_def request_def Let_def Cookies_remove_def ErrorResult_has_error
      split: option.splits bool.splits if_splits)

lemma authenticate_slots:
  "currentUser (snd (authenticate reply s)) = Null \<or> currentError (snd (authenticate reply s)) = Null"
  by (cases "reply_success reply") (simp_all add: authenticate_no_success authenticate_success)

lemma no_authenticate_no_user:
  "\<forall>c \<in> set calls. fst c \<noteq> Authenticate \<Longrightarrow> currentUser s = Null \<Longrightarrow>
   currentUser (run calls s) = Null"
proof (induction calls arbitrary: s)
  case Nil
  then show ?case by simp
next
  case (Cons c calls)
  obtain op reply where c: "c = (op, reply)" by (cases c)
  with Cons.prems have op: "op \<noteq> Authenticate" by simp
  have "currentUser (snd (call op reply s)) = Null"
  proof (cases "op = Unauthenticate")
    case True
    then show ?thesis by (simp add: unauthenticate_currentUser)
  next
    case False
    with op Cons.prems(2) show ?thesis by (simp add: call_currentUser)
  qed
  with Cons show ?case by (simp add: c)
qed

lemma authenticate_transport_error:
  "\<not> ok r \<Longrightarrow>
   fst (authenticate (Responds r) s) = Resolved (ErrorResult (decimal (status r) @ '' '' @ statusText r))
   \<and> currentError (snd (authenticate (Responds r) s))
       = ErrorResult (decimal (status r) @ '' '' @ statusText r)"
  by (simp add: authenticate_def request_def Let_def ErrorResult_has_error)

text \<open>
  C10. \<^verbatim>\<open>currentUser\<close> is assigned by \<^verbatim>\<open>authenticate\<close> and \<^verbatim>\<open>unauthenticate\<close> only: every
  other method leaves it as it was in every state and for every reply, \<^verbatim>\<open>unauthenticate\<close>
  always leaves it null, and it is not null after \<^verbatim>\<open>authenticate\<close> only when the reply
  succeeded, and is then the \<^verbatim>\<open>data\<close> of the body.
\<close>

theorem currentUser_assigned_only_by_authenticate:
  "(op \<noteq> Authenticate \<and> op \<noteq> Unauthenticate \<longrightarrow>
      currentUser (snd (call op reply s)) = currentUser s)
   \<and> currentUser (snd (unauthenticate reply s)) = Null
   \<and> (currentUser (snd (authenticate reply s)) \<noteq> Null \<longrightarrow>
        (\<exists>v. reply_success reply = Some v \<and> currentUser (snd (authenticate reply s)) = get_prop ''data'' v))"
proof -
  have "currentUser (snd (authenticate reply s)) \<noteq> Null \<Longrightarrow>
        \<exists>v. reply_success reply = Some v \<and> currentUser (snd (authenticate reply s)) = get_prop ''data'' v"
    by (cases "reply_success reply") (simp_all add: authenticate_no_success authenticate_success)
  then show ?thesis
    by (simp add: call_currentUser unauthenticate_currentUser)
qed

theorem currentUser_assigned_only_by_authenticate_witness:
  "currentUser (snd (call (AddAnnotation a_note ''2023-06-01T00:00:00.000Z'') Fails (signed_in True)))
     = user_A True
   \<and> currentUser (snd (unauthenticate Fails (signed_in True))) = Null
   \<and> (\<exists>v. reply_success (reply_200 (Obj [(''session'', Str ''abc''), (''data'', user_A True)])) = Some v
          \<and> user_A True = get_prop ''data'' v)"
proof -
  have u: "currentUser (snd (authenticate
              (reply_200 (Obj [(''session'', Str ''abc''), (''data'', user_A True)])) fresh)) = user_A True"
    using signed_in_user [of True] by (simp add: signed_in_def)
  have n: "user_A True \<noteq> Null"
    by (simp add: user_A_def UserData_val_def)
  from currentUser_assigned_only_by_authenticate
         [of "AddAnnotation a_note ''2023-06-01T00:00:00.000Z''" Fails "signed_in True"]
       currentUser_assigned_only_by_authenticate
         [of Authenticate "reply_200 (Obj [(''session'', Str ''abc''), (''data'', user_A True)])" fresh]
  show ?thesis
    by (simp add: u n signed_in_user)
qed

text \<open>
  C2, as the code has it. A new instance has \<^verbatim>\<open>currentUser\<close> and \<^verbatim>\<open>currentError\<close> null. When
  a call of \<^verbatim>\<open>authenticate\<close> has settled, one of the two is null. As long as
  \<^verbatim>\<open>authenticate\<close> has not been called, \<^verbatim>\<open>currentUser\<close> is null after every sequence of
  other calls. \<^verbatim>\<open>currentError\<close> is not: a refused \<^verbatim>\<open>addAnnotation\<close> and a response outside
  2xx set it, before \<^verbatim>\<open>authenticate\<close> as after it.
\<close>

theorem user_and_error_slots:
  "currentUser (constructor url j) = Null \<and> currentError (constructor url j) = Null
   \<and> (currentUser (snd (authenticate reply s)) = Null
        \<or> currentError (snd (authenticate reply s)) = Null)
   \<and> ((\<forall>c \<in> set calls. fst c \<noteq> Authenticate) \<longrightarrow>
        currentUser (run calls (constructor url j)) = Null)"
proof -
  have "currentUser (constructor url j) = Null"
    by (simp add: constructor_def)
  then show ?thesis
    by (simp add: constructor_def authenticate_slots no_authenticate_no_user)
qed

theorem user_and_error_slots_witness:
  "currentUser (run [(AnnotatedItemIds ''r1'', reply_500), (Unauthenticate, Fails),
                     (AddAnnotation a_note ''2023-06-01T00:00:00.000Z'', Fails)]
                    (constructor ''https://x/y'' Map.empty)) = Null
   \<and> (currentUser (snd (authenticate reply_500 (signed_in True))) = Null
        \<or> currentError (snd (authenticate reply_500 (signed_in True))) = Null)"
  using user_and_error_slots
    [of "''https://x/y''" Map.empty reply_500 "signed_in True"
        "[(AnnotatedItemIds ''r1'', reply_500), (Unauthenticate, Fails),
          (AddAnnotation a_note ''2023-06-01T00:00:00.000Z'', Fails)]"]
  by simp

text \<open>
  The claim as the specification states it fails. On a new instance, with no call of
  \<^verbatim>\<open>authenticate\<close> before, a refused \<^verbatim>\<open>addAnnotation\<close> and an \<^verbatim>\<open>annotatedItemIds\<close> answered
  with a 500 each leave \<^verbatim>\<open>currentError\<close> non-null. And after a successful
  \<^verbatim>\<open>authenticate\<close> of a user who cannot update, a refused \<^verbatim>\<open>addAnnotation\<close> leaves both
  \<^verbatim>\<open>currentUser\<close> and \<^verbatim>\<open>currentError\<close> non-null.
\<close>

theorem error_set_before_authenticate:
  "currentError (run [(AddAnnotation a_note ''2023-06-01T00:00:00.000Z'', Fails)] fresh)
     = Obj [(''error'', Str ''user cannot add annotation'')]
   \<and> currentError (run [(AnnotatedItemIds ''r1'', reply_500)] fresh)
     = Obj [(''error'', Str ''500 Internal Server Error'')]
   \<and> currentUser (run [(AddAnnotation a_note ''2023-06-01T00:00:00.000Z'', Fails)] (signed_in False))
     = Obj [(''name'', Str ''A''), (''email'', Str ''a@b''), (''orcid'', Str ''0000''),
            (''canUpdate'', Bool False)]
   \<and> currentError (run [(AddAnnotation a_note ''2023-06-01T00:00:00.000Z'', Fails)] (signed_in False))
     = Obj [(''error'', Str ''user cannot add annotation'')]"
proof -
  have a: "currentError (run [(AddAnnotation a_note ''2023-06-01T00:00:00.000Z'', Fails)] fresh)
             = Obj [(''error'', Str ''user cannot add annotation'')]"
    by (simp add: addAnnotation_def fresh_def constructor_def ErrorResult_def Let_def)
  have b: "currentError (run [(AnnotatedItemIds ''r1'', reply_500)] fresh)
             = Obj [(''error'', Str ''500 Internal Server Error'')]"
    by (simp add: failed_read_error)
  have c: "currentUser (run [(AddAnnotation a_note ''2023-06-01T00:00:00.000Z'', Fails)] (signed_in False))
             = Obj [(''name'', Str ''A''), (''email'', Str ''a@b''), (''orcid'', Str ''0000''),
                    (''canUpdate'', Bool False)]"
    by (simp add: addAnnotation_currentUser signed_in_user user_A_def UserData_val_def)
  have d: "currentError (run [(AddAnnotation a_note ''2023-06-01T00:00:00.000Z'', Fails)] (signed_in False))
             = Obj [(''error'', Str ''user cannot add annotation'')]"
    by (simp add: addAnnotation_def signed_in_user user_A_def UserData_val_def ErrorResult_def Let_def)
  from a b c d show ?thesis by blast
qed

section \<open>The session cookie\<close>

text \<open>
  C5, as the code has it. A call of \<^verbatim>\<open>authenticate\<close> whose reply succeeds sets the cookie
  \<^verbatim>\<open>annotation-key\<close> to the \<^verbatim>\<open>session\<close> of the body, secure and expiring in one day; one
  whose reply carries an error removes it; no other reply to \<^verbatim>\<open>authenticate\<close> sets
  it. Every other method, \<^verbatim>\<open>unauthenticate\<close> among them, leaves the cookies as they were.
\<close>

theorem session_cookie_set_and_removed:
  "(reply_success reply = Some v \<longrightarrow>
      cookies (snd (authenticate reply s)) =
        (cookies s)(''annotation-key'' \<mapsto>
           \<lparr>cookie_value = ToString (get_prop ''session'' v), secure = True, expires = Some 1\<rparr>))
   \<and> (reply_error reply = Some e \<longrightarrow>
        cookies (snd (authenticate reply s)) = (cookies s)(''annotation-key'' := None))
   \<and> (reply_success reply = None \<longrightarrow>
        cookies (snd (authenticate reply s)) ''annotation-key'' = None
        \<or> cookies (snd (authenticate reply s)) = cookies s)
   \<and> (op \<noteq> Authenticate \<longrightarrow> cookies (snd (call op reply s)) = cookies s)"
proof -
  have "reply_success reply = None \<Longrightarrow>
        cookies (snd (authenticate reply s)) ''annotation-key'' = None
        \<or> cookies (snd (authenticate reply s)) = cookies s"
    by (cases reply)
      (auto simp: authenticate_def request_def Let_def Cookies_remove_def ErrorResult_has_error
        split: option.splits bool.splits if_splits)
  then show ?thesis
    by (simp add: authenticate_success authenticate_error call_cookies)
qed

theorem session_cookie_set_and_removed_witness:
  "cookies (snd (authenticate (reply_200 (Obj [(''session'', Str ''abc''), (''data'', user_A True)])) fresh))
     = [''annotation-key'' \<mapsto> \<lparr>cookie_value = ''abc'', secure = True, expires = Some 1\<rparr>]
   \<and> cookies (snd (authenticate reply_500 (signed_in True))) = Map.empty
   \<and> cookies (snd (call (GetAnnotation ''https://x/a/1'') reply_500 (signed_in True)))
       = [''annotation-key'' \<mapsto> \<lparr>cookie_value = ''abc'', secure = True, expires = Some 1\<rparr>]"
proof -
  have h1: "reply_success (reply_200 (Obj [(''session'', Str ''abc''), (''data'', user_A True)]))
              = Some (Obj [(''session'', Str ''abc''), (''data'', user_A True)])"
    by (simp add: reply_200_def ok_def)
  have h2: "reply_error reply_500 = Some (Obj [(''error'', Str ''500 Internal Server Error'')])"
    by (simp add: reply_500_def ok_def ErrorResult_def decimal.simps digit_def)
  have f: "cookies fresh = Map.empty"
    by (simp add: fresh_def constructor_def)
  from session_cookie_set_and_removed
         [of "reply_200 (Obj [(''session'', Str ''abc''), (''data'', user_A True)])"
             "Obj [(''session'', Str ''abc''), (''data'', user_A True)]" fresh]
       session_cookie_set_and_removed
         [of reply_500 _ "signed_in True" "Obj [(''error'', Str ''500 Internal Server Error'')]"
             "GetAnnotation ''https://x/a/1''"]
  show ?thesis
    by (simp add: h1 h2 f signed_in_cookies)
qed

text \<open>
  The claim as the specification states it fails: after a successful \<^verbatim>\<open>authenticate\<close> and
  a successful \<^verbatim>\<open>unauthenticate\<close> the cookie \<^verbatim>\<open>annotation-key\<close> is still the one that
  \<^verbatim>\<open>authenticate\<close> wrote.
\<close>

theorem unauthenticate_keeps_session_cookie:
  "cookies (snd (unauthenticate (reply_200 (Obj [(''success'', Str ''signed out'')])) (signed_in True)))
     ''annotation-key''
   = Some \<lparr>cookie_value = ''abc'', secure = True, expires = Some 1\<rparr>"
  by (simp add: unauthenticate_cookies signed_in_cookies)

section \<open>Application errors in a 2xx body\<close>

text \<open>
  C3, at a reply the claim covers: the server answers \<^verbatim>\<open>authenticate\<close> with status 200 and
  the body \<^verbatim>\<open>{error: "unknown user"}\<close>. The method resolves to null and \<^verbatim>\<open>currentError\<close> is
  null afterwards, where the claim has both equal to that error.
\<close>

theorem authenticate_drops_application_error:
  "fst (authenticate (reply_200 (Obj [(''error'', Str ''unknown user'')])) fresh) = Resolved Null
   \<and> currentError (snd (authenticate (reply_200 (Obj [(''error'', Str ''unknown user'')])) fresh)) = Null"
  by (simp add: authenticate_def request_def reply_200_def ok_def Let_def fresh_def constructor_def)

text \<open>
  C4, at a reply the claim covers: the server answers \<^verbatim>\<open>annotatedItemIds\<close> with status 200
  and the body \<^verbatim>\<open>{error: "unknown resource"}\<close>. On a new instance the method resolves to
  null and records nothing; after an earlier call that got a 500 it resolves to the
  error of that earlier call.
\<close>

theorem read_drops_application_error:
  "fst (annotatedItemIds ''r1'' (reply_200 (Obj [(''error'', Str ''unknown resource'')])) fresh)
     = Resolved Null
   \<and> currentError (snd (annotatedItemIds ''r1''
        (reply_200 (Obj [(''error'', Str ''unknown resource'')])) fresh)) = Null
   \<and> fst (annotatedItemIds ''r1'' (reply_200 (Obj [(''error'', Str ''unknown resource'')]))
            (snd (annotatedItemIds ''r1'' reply_500 fresh)))
     = Resolved (Obj [(''error'', Str ''500 Internal Server Error'')])"
  by (simp add: annotatedItemIds_def body_or_currentError_def request_def reply_200_def reply_500_def
      ok_def Let_def fresh_def constructor_def ErrorResult_def decimal.simps digit_def)

end
